theory Spec2Isabelle
  imports Main "HOL-Library.Word"
begin

section \<open>The image proxy: data model\<close>

text \<open>
  The repository is an Express application of three files: the entry point (the cluster
  set-up, the middleware chain and the idle timer), \<^verbatim>\<open>parse-request-parameters.js\<close> and
  \<^verbatim>\<open>handle-image-proxy-request\<close>. The model follows them function by function.

  JavaScript strings are \<^typ>\<open>string\<close>, a \<^verbatim>\<open>Buffer\<close> is a list of bytes, an object
  used as a dictionary of header fields is a map, and an object literal whose fields are
  enumerated (\<^verbatim>\<open>res.set({...})\<close>) is an association list in the order of the literal.
\<close>

type_synonym buffer = "8 word list"
type_synonym header_fields = "(string \<times> string) list"
type_synonym header_map = "string \<rightharpoonup> string"

text \<open>
  A thrown JavaScript exception. \<open>ERR_HTTP_HEADERS_SENT\<close> is what Node's
  \<^verbatim>\<open>setHeader\<close>, \<^verbatim>\<open>removeHeader\<close> and \<^verbatim>\<open>writeHead\<close> throw once the response head
  has been written; \<open>Thrown m\<close> is any other exception, with its message.
\<close>

datatype error = ERR_HTTP_HEADERS_SENT | Thrown string

text \<open>
  \<^verbatim>\<open>request.app.locals\<close>, the object \<^verbatim>\<open>parseRequestParameters\<close> builds (lines 30-35):
  \<^verbatim>\<open>{ url, format, grayscale, quality }\<close>. \<open>quality\<close> is what \<^verbatim>\<open>parseInt\<close> returns, a
  JavaScript number that may be \<^verbatim>\<open>NaN\<close>; its type is left open.
\<close>

record 'q locals =
  url :: string
  format :: string
  grayscale :: bool
  quality :: 'q

text \<open>What superagent resolves to: the upstream response's header fields and its body.\<close>

record ext_response =
  headers :: header_fields
  body :: buffer

text \<open>
  What \<^verbatim>\<open>compressImage\<close> and \<^verbatim>\<open>compressImageToBestFormat\<close> resolve to:
  \<^verbatim>\<open>{ image: { data, info: { size } }, format }\<close> (the optional \<^verbatim>\<open>sizes\<close> field is only
  copied into log messages).
\<close>

record compress_result =
  image_data :: buffer
  image_info_size :: nat
  result_format :: string

text \<open>
  The Express response object, as far as the handlers use it: the header fields set so
  far, \<^verbatim>\<open>headersSent\<close>, and what has been written to the client.
\<close>

datatype payload = Body buffer | Text string | Redirect string

record response =
  res_headers :: header_map
  headersSent :: bool
  written :: "payload list"

definition fresh_response :: response where
  "fresh_response = \<lparr>res_headers = Map.empty, headersSent = False, written = []\<rparr>"

text \<open>
  \<^verbatim>\<open>res.set(obj)\<close> calls \<^verbatim>\<open>setHeader\<close> for each field of \<open>obj\<close> in turn, a later
  field replacing an earlier one of the same name; \<^verbatim>\<open>setHeader\<close> throws once the head
  has been written. Header names are taken in the lower-case form Node stores them in.
\<close>

definition set_fields :: "header_fields \<Rightarrow> response \<Rightarrow> error + response" where
  "set_fields fs r =
     (if fs = [] then Inr r
      else if headersSent r then Inl ERR_HTTP_HEADERS_SENT
      else Inr (r\<lparr>res_headers := fold (\<lambda>(k, v) m. m(k \<mapsto> v)) fs (res_headers r)\<rparr>))"

definition removeHeader :: "string \<Rightarrow> response \<Rightarrow> error + response" where
  "removeHeader name r =
     (if headersSent r then Inl ERR_HTTP_HEADERS_SENT
      else Inr (r\<lparr>res_headers := (res_headers r)(name := None)\<rparr>))"

text \<open>\<^verbatim>\<open>Number.prototype.toString\<close> on an integer: its decimal digits.\<close>

definition digit :: "nat \<Rightarrow> char" where
  "digit d = ''0123456789'' ! d"

fun digits :: "nat \<Rightarrow> string" where
  "digits n = (if n < 10 then [digit n] else digits (n div 10) @ [digit (n mod 10)])"

declare digits.simps [simp del]

definition toString :: "int \<Rightarrow> string" where
  "toString i = (if i < 0 then CHR ''-'' # digits (nat (- i)) else digits (nat i))"

text \<open>
  Writing the head and a payload ends the response. Node throws when the head is written
  twice.
\<close>

definition end_response :: "payload \<Rightarrow> response \<Rightarrow> error + response" where
  "end_response p r =
     (if headersSent r then Inl ERR_HTTP_HEADERS_SENT
      else Inr (r\<lparr>headersSent := True, written := written r @ [p]\<rparr>))"

text \<open>
  \<^verbatim>\<open>res.send(chunk)\<close>, called with a \<^verbatim>\<open>Buffer\<close> (line 100 of the handler) or with a
  string (line 20 of the parameter extractor). Express sets \<^verbatim>\<open>Content-Length\<close> to the
  number of bytes of the chunk, replacing a value set before, and then writes the head
  and the chunk. The request is taken to be an unconditional \<^verbatim>\<open>GET\<close>: what Express
  does for \<^verbatim>\<open>HEAD\<close> and for a conditional request whose copy is still fresh is not
  modelled, and neither are the fields it adds besides \<^verbatim>\<open>Content-Length\<close> (a
  \<^verbatim>\<open>Content-Type\<close> where none is set, the charset of a string, \<^verbatim>\<open>ETag\<close>).
\<close>

datatype chunk = Buf buffer | Str string

fun chunk_length :: "chunk \<Rightarrow> nat" where
  "chunk_length (Buf b) = length b"
| "chunk_length (Str t) = length t"

fun chunk_payload :: "chunk \<Rightarrow> payload" where
  "chunk_payload (Buf b) = Body b"
| "chunk_payload (Str t) = Text t"

definition send :: "chunk \<Rightarrow> response \<Rightarrow> error + response" where
  "send c r =
     (if headersSent r then Inl ERR_HTTP_HEADERS_SENT
      else end_response (chunk_payload c)
             (r\<lparr>res_headers :=
                  (res_headers r)(''content-length'' \<mapsto> toString (int (chunk_length c)))\<rparr>))"

text \<open>
  \<^verbatim>\<open>res.redirect(url)\<close> writes the head and a short body of its own and ends the
  response; it sets header fields first, so it throws on a response whose head is out.
  The fields it sets for that body (\<^verbatim>\<open>Location\<close>, and \<^verbatim>\<open>Content-Type\<close> and
  \<^verbatim>\<open>Content-Length\<close> as negotiated with the request) are not modelled: nothing below
  reads the header fields of a response that was redirected.
\<close>

definition redirect :: "string \<Rightarrow> response \<Rightarrow> error + response" where
  "redirect u r = end_response (Redirect u) r"

section \<open>The request handler\<close>

text \<open>
  What the handler does to the world, in order: each upstream fetch (with the URL and the
  header fields sent), each call of a compression function (\<open>True\<close> for
  \<^verbatim>\<open>compressImageToBestFormat\<close>, with the bytes and the parameter object passed), and
  each line logged (with its level; the message text, which formats sizes as floating
  point, is left out).
\<close>

datatype 'q event =
    Fetch string header_map
  | Compress bool buffer "'q locals"
  | Log string

text \<open>
  The state a handler runs on: \<^verbatim>\<open>app.locals\<close> of the one Express application of the
  worker, the response of this request, and the events so far.
\<close>

record 'q state =
  locals :: "'q locals"
  response :: response
  trace :: "'q event list"

text \<open>
  The environment variables the handler reads, each \<^verbatim>\<open>undefined\<close> (\<open>None\<close>) or a string.
\<close>

record env =
  USE_BEST_COMPRESSION_FORMAT :: "string option"
  ENABLE_ALTERNATIVE_FORMAT :: "string option"

text \<open>
  Everything outside the handler. \<open>fetch\<close> is the superagent request (timeout, retries
  and redirects included): given the events so far, the URL and the header fields, it
  fails or yields a response. \<open>compressImage\<close> and \<open>compressImageToBestFormat\<close> are the two
  modules of the repository that wrap the image codec; their source is not part of the
  files at hand, so they are parameters. \<open>meanwhile\<close> is the event loop: the handler is an
  \<^verbatim>\<open>async\<close> function, and while it is suspended at an \<^verbatim>\<open>await\<close> Node runs the
  middleware of other requests of the same worker, which share \<^verbatim>\<open>app.locals\<close> with it;
  \<open>meanwhile w t l\<close> is what they leave in \<^verbatim>\<open>app.locals\<close>, found as \<open>l\<close>, during the
  suspension reached after the events \<open>t\<close>.
\<close>

record 'q world =
  fetch :: "'q event list \<Rightarrow> string \<Rightarrow> header_map \<Rightarrow> error + ext_response"
  compressImage :: "'q event list \<Rightarrow> buffer \<Rightarrow> 'q locals \<Rightarrow> error + compress_result"
  compressImageToBestFormat :: "'q event list \<Rightarrow> buffer \<Rightarrow> 'q locals \<Rightarrow> error + compress_result"
  meanwhile :: "'q event list \<Rightarrow> 'q locals \<Rightarrow> 'q locals"

text \<open>A request handled alone: nothing else touches \<^verbatim>\<open>app.locals\<close> while it is suspended.\<close>

definition isolated :: "'q world \<Rightarrow> bool" where
  "isolated w \<longleftrightarrow> (\<forall>t l. meanwhile w t l = l)"

text \<open>
  Modelled from the spec: \<^verbatim>\<open>omit-equals.js\<close> is not among the files; section 4.2 says the
  header set sent upstream is the inbound request's "with \<^verbatim>\<open>host\<close> removed".
\<close>

definition omitEquals :: "header_map \<Rightarrow> string list \<Rightarrow> header_map" where
  "omitEquals h ks = (\<lambda>k. if k \<in> set ks then None else h k)"

text \<open>Lines 42-49, from \<^verbatim>\<open>appRequest.headers\<close>.\<close>

definition filteredRequestHeaders :: "header_map \<Rightarrow> header_map" where
  "filteredRequestHeaders reqHeaders =
     (omitEquals reqHeaders [''host''])
       (''accept-encoding'' \<mapsto> ''*'', ''accept'' \<mapsto> ''*/*'',
        ''cache-control'' \<mapsto> ''no-cache'', ''pragma'' \<mapsto> ''no-cache'',
        ''connection'' \<mapsto> ''close'')"

text \<open>
  Lines 51-55: the assignment to \<^verbatim>\<open>appRequest.app.locals.format\<close> every call starts with.
\<close>

definition assign_format :: "bool \<Rightarrow> 'q locals \<Rightarrow> 'q locals" where
  "assign_format tryAlternativeFormat l =
     l\<lparr>format :=
         (if tryAlternativeFormat
          then (if format l = ''webp'' then ''jpeg'' else ''webp'')
          else format l)\<rparr>"

definition logger :: "string \<Rightarrow> 'q state \<Rightarrow> 'q state" where
  "logger level s = s\<lparr>trace := trace s @ [Log level]\<rparr>"

text \<open>
  \<^verbatim>\<open>await superagent.get(url)...\<close> (lines 60-68): the request goes out, the handler is
  suspended, and it resumes with the outcome.
\<close>

definition await_fetch ::
  "'q world \<Rightarrow> string \<Rightarrow> header_map \<Rightarrow> 'q state \<Rightarrow> (error + ext_response) \<times> 'q state" where
  "await_fetch w u hs s =
     (let t = trace s @ [Fetch u hs]
      in (fetch w (trace s) u hs, s\<lparr>trace := t, locals := meanwhile w t (locals s)\<rparr>))"

text \<open>
  Lines 72-75: the compression function is chosen by \<^verbatim>\<open>USE_BEST_COMPRESSION_FORMAT\<close> and
  called with the fetched bytes and \<^verbatim>\<open>appRequest.app.locals\<close> as it is at the call.
\<close>

definition best_format_mode :: "env \<Rightarrow> bool" where
  "best_format_mode e \<longleftrightarrow> USE_BEST_COMPRESSION_FORMAT e = Some ''true''"

definition compressor ::
  "env \<Rightarrow> 'q world \<Rightarrow> 'q event list \<Rightarrow> buffer \<Rightarrow> 'q locals \<Rightarrow> error + compress_result" where
  "compressor e w =
     (if best_format_mode e then compressImageToBestFormat w else compressImage w)"

definition await_compress ::
  "env \<Rightarrow> 'q world \<Rightarrow> buffer \<Rightarrow> 'q state \<Rightarrow> (error + compress_result) \<times> 'q state" where
  "await_compress e w b s =
     (let t = trace s @ [Compress (best_format_mode e) b (locals s)]
      in (compressor e w (trace s) b (locals s),
          s\<lparr>trace := t, locals := meanwhile w t (locals s)\<rparr>))"

text \<open>The \<^verbatim>\<open>catch\<close> block, lines 145-165.\<close>

definition catch_error :: "string \<Rightarrow> error \<Rightarrow> 'q state \<Rightarrow> 'q state" where
  "catch_error u err s =
     logger ''error''
       (if \<not> headersSent (response s)
        then (case redirect u (response s) of
                Inr r \<Rightarrow> s\<lparr>response := r\<rparr>
              | Inl _ \<Rightarrow> s)
        else s)"

text \<open>Lines 93-99: the header fields of a response that serves the compressed image.\<close>

definition compressed_fields :: "compress_result \<Rightarrow> nat \<Rightarrow> header_fields" where
  "compressed_fields compressedImageResult originalImageSize =
     (let compressedImageSize = image_info_size compressedImageResult;
          savedImageSize = int originalImageSize - int compressedImageSize
      in [(''content-encoding'', ''identity''),
          (''content-type'', ''image/'' @ result_format compressedImageResult),
          (''content-length'', toString (int compressedImageSize)),
          (''x-original-size'', toString (int originalImageSize)),
          (''x-bytes-saved'', toString savedImageSize)])"

text \<open>
  \<^verbatim>\<open>handleImageProxyRequest(appRequest, appResponse, _next, tryAlternativeFormat)\<close>,
  lines 36-166. \<open>reqHeaders\<close> is \<^verbatim>\<open>appRequest.headers\<close>. Every statement of the
  \<^verbatim>\<open>try\<close> block that can throw is a \<open>case\<close> whose \<open>Inl\<close> branch is the \<^verbatim>\<open>catch\<close>
  block, entered with the state as the throw found it. The listener registered on
  \<^verbatim>\<open>close\<close> (lines 125-144) runs after the handler has returned and only logs; it is
  left out.
\<close>

function handleImageProxyRequest ::
  "env \<Rightarrow> 'q world \<Rightarrow> header_map \<Rightarrow> bool \<Rightarrow> 'q state \<Rightarrow> 'q state" where
  "handleImageProxyRequest e w reqHeaders tryAlternativeFormat s0 =
     (let s1 = s0\<lparr>locals := assign_format tryAlternativeFormat (locals s0)\<rparr>;
          url' = url (locals s1)
      in case await_fetch w url' (filteredRequestHeaders reqHeaders) s1 of
           (Inl err, s2) \<Rightarrow> catch_error url' err s2
         | (Inr externalImageResponse, s2) \<Rightarrow>
        (case set_fields (headers externalImageResponse) (response s2) of
           Inl err \<Rightarrow> catch_error url' err s2
         | Inr r3 \<Rightarrow>
        (case await_compress e w (body externalImageResponse) (s2\<lparr>response := r3\<rparr>) of
           (Inl err, s4) \<Rightarrow> catch_error url' err s4
         | (Inr compressedImageResult, s4) \<Rightarrow>
        (let compressedImageSize = image_info_size compressedImageResult;
             originalImageSize = length (body externalImageResponse);
             savedImageSize = int originalImageSize - int compressedImageSize
         in case removeHeader ''transfer-encoding'' (response s4) of
              Inl err \<Rightarrow> catch_error url' err s4
            | Inr r5 \<Rightarrow>
           (let s5 = s4\<lparr>response := r5\<rparr>
            in if savedImageSize > 0 then
                 (case set_fields (compressed_fields compressedImageResult originalImageSize) r5 of
                    Inl err \<Rightarrow> catch_error url' err s5
                  | Inr r6 \<Rightarrow>
                 (case send (Buf (image_data compressedImageResult)) r6 of
                    Inl err \<Rightarrow> catch_error url' err (s5\<lparr>response := r6\<rparr>)
                  | Inr r7 \<Rightarrow> s5\<lparr>response := r7\<rparr>))
               else if \<not> tryAlternativeFormat \<and> ENABLE_ALTERNATIVE_FORMAT e = Some ''true''
               then handleImageProxyRequest e w reqHeaders True (logger ''info'' s5)
               else
                 (case redirect url' r5 of
                    Inl err \<Rightarrow> catch_error url' err s5
                  | Inr r6 \<Rightarrow> s5\<lparr>response := r6\<rparr>))))))"
  by pat_completeness auto
termination
  by (relation "measure (\<lambda>(e, w, h, t, s). if t then 0 else 1)") auto

declare handleImageProxyRequest.simps [simp del]

text \<open>What a trace shows: the URLs fetched, and the compression calls made.\<close>

fun fetched :: "'q event \<Rightarrow> string list" where
  "fetched (Fetch u hs) = [u]"
| "fetched (Compress b d l) = []"
| "fetched (Log m) = []"

definition fetches :: "'q event list \<Rightarrow> string list" where
  "fetches t = concat (map fetched t)"

fun compressed :: "'q event \<Rightarrow> (bool \<times> buffer \<times> 'q locals) list" where
  "compressed (Fetch u hs) = []"
| "compressed (Compress b d l) = [(b, d, l)]"
| "compressed (Log m) = []"

definition compressions :: "'q event list \<Rightarrow> (bool \<times> buffer \<times> 'q locals) list" where
  "compressions t = concat (map compressed t)"

section \<open>The parameter extractor\<close>

text \<open>
  \<^verbatim>\<open>parse-request-parameters.js\<close>. (In the file at hand every \<^verbatim>\<open>:\<close> that followed a
  word is printed as \<^verbatim>\<open> =\<close>, in type annotations, in the conditional expressions and in
  the regular expression alike; the model reads them as the colons they were.)

  The platform functions it calls are parameters: \<^verbatim>\<open>URLSearchParams\<close>, from the text of
  a query to its entries in order, and \<^verbatim>\<open>parseInt\<close> with one argument.
\<close>

record 'q platform =
  URLSearchParams :: "string \<Rightarrow> (string \<times> string) list"
  parseInt :: "string \<Rightarrow> 'q"

definition allowedQueryParameters :: "string list" where
  "allowedQueryParameters = [''url'', ''jpg'', ''bw'', ''l'']"

text \<open>
  \<^verbatim>\<open>request.url.slice(request.url.indexOf('?'))\<close>: from the first \<^verbatim>\<open>?\<close> on; where there is
  none \<^verbatim>\<open>indexOf\<close> is \<open>-1\<close> and \<^verbatim>\<open>slice(-1)\<close> is the last character.
\<close>

definition query_slice :: "string \<Rightarrow> string" where
  "query_slice u =
     (if CHR ''?'' \<in> set u then dropWhile (\<lambda>c. c \<noteq> CHR ''?'') u
      else if u = [] then [] else [last u])"

text \<open>
  The loop of lines 11-17 over the entries: the recognised parameters (a later value
  replacing an earlier one) and the text of the others.
\<close>

definition filter_entry ::
  "string \<times> string \<Rightarrow> (string \<rightharpoonup> string) \<times> string \<Rightarrow> (string \<rightharpoonup> string) \<times> string" where
  "filter_entry kv acc =
     (case (kv, acc) of ((key, value), (filteredQueryParams, extraQueryParams)) \<Rightarrow>
        if key \<in> set allowedQueryParameters
        then (filteredQueryParams(key \<mapsto> value), extraQueryParams)
        else (filteredQueryParams,
              extraQueryParams @
                (if value \<noteq> [] then ''&'' @ key @ ''='' @ value else ''&'' @ key)))"

definition filter_entries :: "(string \<times> string) list \<Rightarrow> (string \<rightharpoonup> string) \<times> string" where
  "filter_entries entries = fold filter_entry entries (Map.empty, [])"

text \<open>
  Line 31: \<^verbatim>\<open>finalUrl.replace(/http:\/\/1\.1\.\d\.\d\/bmi\/(https?:\/\/)?/i, 'http://')\<close>,
  which rewrites the leftmost match only. The pattern is ASCII, so ignoring case is
  ignoring the case of the letters A to Z.
\<close>

definition lower :: "char \<Rightarrow> char" where
  "lower c = (let n = (of_char c :: nat) in if 65 \<le> n \<and> n \<le> 90 then char_of (n + 32) else c)"

definition is_digit :: "char \<Rightarrow> bool" where
  "is_digit c \<longleftrightarrow> (let n = (of_char c :: nat) in 48 \<le> n \<and> n \<le> 57)"

fun match_ci :: "string \<Rightarrow> string \<Rightarrow> string option" where
  "match_ci [] s = Some s"
| "match_ci (p # ps) [] = None"
| "match_ci (p # ps) (c # cs) = (if lower c = p then match_ci ps cs else None)"

definition match_digit :: "string \<Rightarrow> string option" where
  "match_digit s = (case s of [] \<Rightarrow> None | c # cs \<Rightarrow> if is_digit c then Some cs else None)"

text \<open>The text left after a match of the pattern at the start of \<open>s\<close>, if there is one.\<close>

definition optional_scheme :: "string \<Rightarrow> string" where
  "optional_scheme s =
     (case match_ci ''https://'' s of
        Some rest \<Rightarrow> rest
      | None \<Rightarrow> (case match_ci ''http://'' s of Some rest \<Rightarrow> rest | None \<Rightarrow> s))"

definition match_bmi :: "string \<Rightarrow> string option" where
  "match_bmi s =
     Option.bind (match_ci ''http://1.1.'' s) (\<lambda>s1.
     Option.bind (match_digit s1) (\<lambda>s2.
     Option.bind (match_ci ''.'' s2) (\<lambda>s3.
     Option.bind (match_digit s3) (\<lambda>s4.
     Option.bind (match_ci ''/bmi/'' s4) (\<lambda>s5.
     Some (optional_scheme s5))))))"

fun replace_bmi :: "string \<Rightarrow> string" where
  "replace_bmi [] = []"
| "replace_bmi (c # cs) =
     (case match_bmi (c # cs) of
        Some rest \<Rightarrow> ''http://'' @ rest
      | None \<Rightarrow> c # replace_bmi cs)"

text \<open>
  \<^verbatim>\<open>parseRequestParameters(request, response, next)\<close>. The result says how the
  middleware ended: it threw, it answered the request itself and returned, or it stored
  a new object in \<^verbatim>\<open>request.app.locals\<close> and called \<^verbatim>\<open>next()\<close>. A string is falsy when
  it is absent or empty (lines 19, 24 and 34).
\<close>

datatype 'q parsed = Threw error | Answered response | Next "'q locals"

definition parseRequestParameters :: "'q platform \<Rightarrow> string \<Rightarrow> response \<Rightarrow> 'q parsed" where
  "parseRequestParameters pf request_url resp =
     (let requestQueryParams = URLSearchParams pf (query_slice request_url);
          (filteredQueryParams, extraQueryParams) = filter_entries requestQueryParams
      in case filteredQueryParams ''url'' of
           None \<Rightarrow>
             (case send (Str ''bandwidth-hero-proxy'') resp of
                Inl err \<Rightarrow> Threw err | Inr r \<Rightarrow> Answered r)
         | Some u \<Rightarrow>
             if u = [] then
               (case send (Str ''bandwidth-hero-proxy'') resp of
                  Inl err \<Rightarrow> Threw err | Inr r \<Rightarrow> Answered r)
             else
               (let finalUrl = (if extraQueryParams \<noteq> [] then u @ extraQueryParams else u)
                in Next \<lparr>url = replace_bmi finalUrl,
                         format = (if filteredQueryParams ''jpg'' = Some ''1'' then ''jpeg'' else ''webp''),
                         grayscale = (filteredQueryParams ''bw'' = Some ''1''),
                         quality = parseInt pf
                           (case filteredQueryParams ''l'' of
                              None \<Rightarrow> ''80''
                            | Some v \<Rightarrow> if v = [] then ''80'' else v)\<rparr>))"

section \<open>The worker\<close>

text \<open>
  The entry point, in a worker process. The worker has one Express application, whose
  \<^verbatim>\<open>locals\<close> every request reaches as \<^verbatim>\<open>request.app.locals\<close> (\<open>None\<close>: no request has
  stored its parameters there yet), and the variable \<^verbatim>\<open>lastRequestTimestamp\<close>, in
  milliseconds as \<^verbatim>\<open>Date.now()\<close> counts them.
\<close>

record 'q worker =
  app_locals :: "'q locals option"
  lastRequestTimestamp :: int

record request =
  req_url :: string
  req_headers :: header_map

definition updateLastRequestTimestamp :: "int \<Rightarrow> 'q worker \<Rightarrow> 'q worker" where
  "updateLastRequestTimestamp now wk = wk\<lparr>lastRequestTimestamp := now\<rparr>"

text \<open>
  Line 51: \<^verbatim>\<open>app.get('/', parseRequestParameters, updateLastRequestTimestamp,
  handleImageProxyRequest)\<close>, run for one request arriving at time \<open>now\<close>: each middleware
  runs when the one before it calls \<^verbatim>\<open>next()\<close>. The result is the worker afterwards, the
  response (\<open>Inl\<close>: the exception handed to Express), and the events of the handler.
\<close>

definition get_root ::
  "env \<Rightarrow> 'q platform \<Rightarrow> 'q world \<Rightarrow> int \<Rightarrow> request \<Rightarrow> 'q worker
     \<Rightarrow> 'q worker \<times> (error + response) \<times> 'q event list" where
  "get_root e pf w now rq wk =
     (case parseRequestParameters pf (req_url rq) fresh_response of
        Threw err \<Rightarrow> (wk, Inl err, [])
      | Answered r \<Rightarrow> (wk, Inr r, [])
      | Next l \<Rightarrow>
          (let wk1 = updateLastRequestTimestamp now (wk\<lparr>app_locals := Some l\<rparr>);
               s = handleImageProxyRequest e w (req_headers rq) False
                     \<lparr>locals = l, response = fresh_response, trace = []\<rparr>
           in (wk1\<lparr>app_locals := Some (locals s)\<rparr>, Inr (response s), trace s)))"

text \<open>
  Lines 60-65, the callback of \<^verbatim>\<open>setInterval\<close>, run at time \<open>now\<close>: whether it calls
  \<^verbatim>\<open>globalThis.gc\<close>. \<open>gc_exposed\<close> says whether the runtime offers that function.
\<close>

definition interval_callback :: "bool \<Rightarrow> int \<Rightarrow> 'q worker \<Rightarrow> bool" where
  "interval_callback gc_exposed now wk =
     (let timeSinceLastRequest = now - lastRequestTimestamp wk
      in if timeSinceLastRequest < 10 * 1000 \<or> timeSinceLastRequest > 60 * 1000 then False
         else gc_exposed)"

text \<open>
  Lines 15 and 40-42: \<^verbatim>\<open>QUEUE_SIZE_PER_CLUSTER\<close> is absent (\<open>None\<close>) or a string, and an
  empty string is falsy. \<open>queueSize\<close> is \<open>None\<close> for the \<^verbatim>\<open>false\<close> of the source, and
  \<open>admission\<close> is the options the \<^verbatim>\<open>express-queue\<close> middleware is installed with, \<open>None\<close>
  where it is not installed. \<^verbatim>\<open>parseInt\<close> with radix 10 is a parameter. What the
  middleware does with the requests it receives is the code of that package, which the
  repository only imports.
\<close>

record 'n queue_options =
  activeLimit :: 'n
  queuedLimit :: int

definition queueSize :: "(string \<Rightarrow> 'n) \<Rightarrow> string option \<Rightarrow> 'n option" where
  "queueSize parseInt10 QUEUE_SIZE_PER_CLUSTER =
     (case QUEUE_SIZE_PER_CLUSTER of
        None \<Rightarrow> None
      | Some v \<Rightarrow> if v = [] then None else Some (parseInt10 v))"

definition admission :: "(string \<Rightarrow> 'n) \<Rightarrow> string option \<Rightarrow> 'n queue_options option" where
  "admission parseInt10 QUEUE_SIZE_PER_CLUSTER =
     (case queueSize parseInt10 QUEUE_SIZE_PER_CLUSTER of
        None \<Rightarrow> None
      | Some n \<Rightarrow> Some \<lparr>activeLimit = n, queuedLimit = - 1\<rparr>)"

section \<open>One attempt of the handler, on its own\<close>

text \<open>
  Two states the theorems below name. \<open>relayed ext r\<close> is the response after lines 70 and
  90: the upstream's header fields copied in, \<^verbatim>\<open>transfer-encoding\<close> removed.
  \<open>attempted e h t ext s\<close> is the state at line 92 of a call that started in \<open>s\<close> with the
  flag \<open>t\<close>, fetched \<open>ext\<close> and called the compression, nothing else having touched
  \<^verbatim>\<open>app.locals\<close> in between.
\<close>

definition relayed :: "ext_response \<Rightarrow> response \<Rightarrow> response" where
  "relayed ext r =
     r\<lparr>res_headers :=
         (fold (\<lambda>(k, v) m. m(k \<mapsto> v)) (headers ext) (res_headers r))
           (''transfer-encoding'' := None)\<rparr>"

definition attempted :: "env \<Rightarrow> header_map \<Rightarrow> bool \<Rightarrow> ext_response \<Rightarrow> 'q state \<Rightarrow> 'q state" where
  "attempted e h t ext s =
     s\<lparr>locals := assign_format t (locals s),
       response := relayed ext (response s),
       trace := trace s @
         [Fetch (url (locals s)) (filteredRequestHeaders h),
          Compress (best_format_mode e) (body ext) (assign_format t (locals s))]\<rparr>"

section \<open>Example data\<close>

text \<open>
  Concrete inputs for the instances below: an upstream response of \<open>n\<close> bytes, a
  compression result of \<open>n\<close> bytes, and worlds built from them. In \<open>steady_world f c\<close>
  every fetch yields \<open>f\<close> and every compression call yields \<open>c\<close> of the format asked for;
  in \<open>tie_world\<close> the original and every compressed image have 10 bytes; in
  \<open>refetch_world\<close> the first fetch yields 10 bytes and any later one 12, and an image
  compresses to 10 bytes as webp and to 8 as jpeg.
\<close>

definition upstream :: "nat \<Rightarrow> ext_response" where
  "upstream n =
     \<lparr>headers = [(''content-type'', ''image/png''), (''transfer-encoding'', ''chunked'')],
      body = replicate n 0\<rparr>"

definition encoded :: "nat \<Rightarrow> string \<Rightarrow> compress_result" where
  "encoded n f = \<lparr>image_data = replicate n 1, image_info_size = n, result_format = f\<rparr>"

definition steady_world ::
  "(error + ext_response) \<Rightarrow> (string \<Rightarrow> error + compress_result) \<Rightarrow> unit world" where
  "steady_world f c =
     \<lparr>fetch = (\<lambda>t u hs. f),
      compressImage = (\<lambda>t b l. c (format l)),
      compressImageToBestFormat = (\<lambda>t b l. c (format l)),
      meanwhile = (\<lambda>t l. l)\<rparr>"

definition tie_world :: "unit world" where
  "tie_world = steady_world (Inr (upstream 10)) (\<lambda>f. Inr (encoded 10 f))"

definition refetch_world :: "unit world" where
  "refetch_world =
     \<lparr>fetch = (\<lambda>t u hs. Inr (upstream (if fetches t = [] then 10 else 12))),
      compressImage = (\<lambda>t b l. Inr (encoded (if format l = ''webp'' then 10 else 8) (format l))),
      compressImageToBestFormat =
        (\<lambda>t b l. Inr (encoded (if format l = ''webp'' then 10 else 8) (format l))),
      meanwhile = (\<lambda>t l. l)\<rparr>"

definition settings :: "bool \<Rightarrow> bool \<Rightarrow> env" where
  "settings best alt =
     \<lparr>USE_BEST_COMPRESSION_FORMAT = (if best then Some ''true'' else None),
      ENABLE_ALTERNATIVE_FORMAT = (if alt then Some ''true'' else None)\<rparr>"

definition first_state :: "unit state" where
  "first_state =
     \<lparr>locals = \<lparr>url = ''http://example.com/a.png'', format = ''webp'', grayscale = False,
                quality = ()\<rparr>,
      response = fresh_response, trace = []\<rparr>"

definition sent_state :: "unit state" where
  "sent_state =
     first_state\<lparr>response :=
       \<lparr>res_headers = Map.empty, headersSent = True, written = [Text ''early'']\<rparr>\<rparr>"

text \<open>
  Two requests on one worker. \<open>two_queries\<close> is \<^verbatim>\<open>URLSearchParams\<close> on the three query
  texts used. In \<open>overlapping_world\<close>, while the handler of the request for
  \<^verbatim>\<open>http://a.example/cat.png\<close> is suspended at its fetch, the request
  \<^verbatim>\<open>/?url=http://b.example/dog.png\<close> arrives and \<open>parseRequestParameters\<close> runs for it.
\<close>

definition two_queries :: "unit platform" where
  "two_queries =
     \<lparr>URLSearchParams =
        (\<lambda>q. if q = ''?url=http://a.example/cat.png&jpg=1''
             then [(''url'', ''http://a.example/cat.png''), (''jpg'', ''1'')]
             else if q = ''?url=http://b.example/dog.png''
             then [(''url'', ''http://b.example/dog.png'')]
             else if q = ''?jpg=1'' then [(''jpg'', ''1'')]
             else []),
      parseInt = (\<lambda>v. ())\<rparr>"

definition overlapping_world :: "unit world" where
  "overlapping_world =
     \<lparr>fetch = (\<lambda>t u hs. Inr (upstream 10)),
      compressImage = (\<lambda>t b l. Inr (encoded 5 (format l))),
      compressImageToBestFormat = (\<lambda>t b l. Inr (encoded 5 (format l))),
      meanwhile =
        (\<lambda>t l. if fetches t = [''http://a.example/cat.png''] \<and> compressions t = []
               then (case parseRequestParameters two_queries ''/?url=http://b.example/dog.png''
                            fresh_response of
                       Next l' \<Rightarrow> l'
                     | Answered r \<Rightarrow> l
                     | Threw err \<Rightarrow> l)
               else l)\<rparr>"

definition idle_worker :: "unit worker" where
  "idle_worker = \<lparr>app_locals = None, lastRequestTimestamp = 0\<rparr>"

section \<open>Properties of the handler\<close>

lemma fetches_append [simp]: "fetches (a @ b) = fetches a @ fetches b"
  by (simp add: fetches_def)

lemma fetches_Nil [simp]: "fetches [] = []"
  by (simp add: fetches_def)

lemma fetches_Cons [simp]: "fetches (ev # t) = fetched ev @ fetches t"
  by (simp add: fetches_def)

lemma compressions_append [simp]: "compressions (a @ b) = compressions a @ compressions b"
  by (simp add: compressions_def)

lemma compressions_Nil [simp]: "compressions [] = []"
  by (simp add: compressions_def)

lemma compressions_Cons [simp]: "compressions (ev # t) = compressed ev @ compressions t"
  by (simp add: compressions_def)

lemma trace_catch_error [simp]: "trace (catch_error u err s) = trace s @ [Log ''error'']"
  by (simp add: catch_error_def logger_def redirect_def end_response_def)

lemma locals_catch_error [simp]: "locals (catch_error u err s) = locals s"
  by (simp add: catch_error_def logger_def redirect_def end_response_def)

lemma written_catch_error [simp]:
  "written (response (catch_error u err s)) =
     (if headersSent (response s) then written (response s)
      else written (response s) @ [Redirect u])"
  by (simp add: catch_error_def logger_def redirect_def end_response_def)

lemma url_assign_format [simp]: "url (assign_format t l) = url l"
  by (simp add: assign_format_def)

lemma assign_format_False [simp]: "assign_format False l = l"
  by (simp add: assign_format_def)

lemma isolated_meanwhile: "isolated w \<Longrightarrow> meanwhile w t l = l"
  by (simp add: isolated_def)

lemmas hipr_ops = Let_def await_fetch_def await_compress_def set_fields_def removeHeader_def
  send_def redirect_def end_response_def logger_def

lemma written_attempted [simp]:
  "written (response (logger level (attempted e h t ext s))) = written (response s)"
  by (simp add: logger_def attempted_def relayed_def)

lemma headersSent_attempted [simp]:
  "headersSent (response (logger level (attempted e h t ext s))) = headersSent (response s)"
  by (simp add: logger_def attempted_def relayed_def)

lemma trace_attempted [simp]:
  "trace (logger level (attempted e h t ext s)) =
     trace s @ [Fetch (url (locals s)) (filteredRequestHeaders h),
                Compress (best_format_mode e) (body ext) (assign_format t (locals s)),
                Log level]"
  by (simp add: logger_def attempted_def)

lemma locals_attempted [simp]:
  "locals (logger level (attempted e h t ext s)) = assign_format t (locals s)"
  by (simp add: logger_def attempted_def)

text \<open>
  The call made with the flag set never calls the handler again: it makes one fetch, at
  most one compression call and writes at most one payload, whatever the world does.
\<close>

lemma alt_fetches:
  "fetches (trace (handleImageProxyRequest e w h True s)) = fetches (trace s) @ [url (locals s)]"
  by (subst handleImageProxyRequest.simps)
     (simp add: hipr_ops split: sum.splits prod.splits)

lemma alt_compressions:
  "length (compressions (trace (handleImageProxyRequest e w h True s)))
     \<le> Suc (length (compressions (trace s)))"
  by (subst handleImageProxyRequest.simps)
     (simp add: hipr_ops split: sum.splits prod.splits)

lemma alt_written:
  "length (written (response (handleImageProxyRequest e w h True s)))
     \<le> Suc (length (written (response s)))"
  by (subst handleImageProxyRequest.simps)
     (simp add: hipr_ops split: sum.splits prod.splits)

lemma alt_locals:
  "isolated w \<Longrightarrow> locals (handleImageProxyRequest e w h True s) = assign_format True (locals s)"
  by (subst handleImageProxyRequest.simps)
     (simp add: hipr_ops isolated_meanwhile split: sum.splits prod.splits)

lemma alt_compressions_exact:
  assumes "isolated w" and "\<not> headersSent (response s)"
  shows "compressions (trace (handleImageProxyRequest e w h True s)) =
           compressions (trace s) @
             (case fetch w (trace s) (url (locals s)) (filteredRequestHeaders h) of
                Inl err \<Rightarrow> []
              | Inr ext \<Rightarrow> [(best_format_mode e, body ext, assign_format True (locals s))])"
  using assms
  by (subst handleImageProxyRequest.simps)
     (simp add: hipr_ops isolated_meanwhile split: sum.splits prod.splits)

lemma hipr_compressions:
  "length (compressions (trace (handleImageProxyRequest e w h t s)))
     \<le> length (compressions (trace s)) + 2"
proof (cases t)
  case True
  then show ?thesis using alt_compressions [of e w h s] by simp
next
  case False
  show ?thesis
    unfolding False
    by (subst handleImageProxyRequest.simps)
       (auto simp: hipr_ops split: sum.splits prod.splits
          intro!: order_trans [OF alt_compressions])
qed

lemma hipr_fetches:
  "length (fetches (trace (handleImageProxyRequest e w h t s)))
     \<le> length (fetches (trace s)) + 2"
proof (cases t)
  case True
  then show ?thesis using alt_fetches [of e w h s] by simp
next
  case False
  show ?thesis
    unfolding False
    by (subst handleImageProxyRequest.simps)
       (auto simp: hipr_ops alt_fetches split: sum.splits prod.splits)
qed

lemma hipr_written:
  "length (written (response (handleImageProxyRequest e w h t s)))
     \<le> Suc (length (written (response s)))"
proof (cases t)
  case True
  then show ?thesis using alt_written [of e w h s] by simp
next
  case False
  show ?thesis
    unfolding False
    by (subst handleImageProxyRequest.simps)
       (auto simp: hipr_ops split: sum.splits prod.splits
          intro!: order_trans [OF alt_written])
qed

lemma hipr_sent:
  assumes "headersSent (response s)"
  shows "written (response (handleImageProxyRequest e w h t s)) = written (response s)"
  using assms
  by (subst handleImageProxyRequest.simps)
     (simp add: hipr_ops split: sum.splits prod.splits)

text \<open>A call whose fetch or compression throws.\<close>

lemma hipr_fetch_failed:
  assumes "fetch w (trace s) (url (locals s)) (filteredRequestHeaders h) = Inl err"
  shows "written (response (handleImageProxyRequest e w h t s)) =
           (if headersSent (response s) then written (response s)
            else written (response s) @ [Redirect (url (locals s))])
         \<and> trace (handleImageProxyRequest e w h t s) =
             trace s @ [Fetch (url (locals s)) (filteredRequestHeaders h), Log ''error'']"
  using assms
  by (simp add: handleImageProxyRequest.simps [of e w h t s] hipr_ops)

lemma hipr_compress_failed:
  assumes "fetch w (trace s) (url (locals s)) (filteredRequestHeaders h) = Inr ext"
    and "set_fields (headers ext) (response s) = Inr r"
    and "compressor e w (trace s @ [Fetch (url (locals s)) (filteredRequestHeaders h)]) (body ext)
           (meanwhile w (trace s @ [Fetch (url (locals s)) (filteredRequestHeaders h)])
              (assign_format t (locals s))) = Inl err"
  shows "written (response (handleImageProxyRequest e w h t s)) =
           (if headersSent (response s) then written (response s)
            else written (response s) @ [Redirect (url (locals s))])
         \<and> trace (handleImageProxyRequest e w h t s) =
             trace s @
               [Fetch (url (locals s)) (filteredRequestHeaders h),
                Compress (best_format_mode e) (body ext)
                  (meanwhile w (trace s @ [Fetch (url (locals s)) (filteredRequestHeaders h)])
                     (assign_format t (locals s))),
                Log ''error'']"
  using assms
  by (auto simp: handleImageProxyRequest.simps [of e w h t s] hipr_ops split: if_splits)

text \<open>
  An attempt, handled alone, whose fetch and compression succeed, on a response whose
  head is not out yet: where the compressed image is smaller it is sent; where it is not,
  the handler is called again or the client is redirected.
\<close>

lemma hipr_win:
  assumes "isolated w"
    and "fetch w (trace s) (url (locals s)) (filteredRequestHeaders h) = Inr ext"
    and "\<not> headersSent (response s)"
    and "compressor e w (trace s @ [Fetch (url (locals s)) (filteredRequestHeaders h)])
           (body ext) (assign_format t (locals s)) = Inr c"
    and "image_info_size c < length (body ext)"
  shows "handleImageProxyRequest e w h t s =
           (attempted e h t ext s)
             \<lparr>response := (relayed ext (response s))
                \<lparr>res_headers :=
                   (fold (\<lambda>(k, v) m. m(k \<mapsto> v)) (compressed_fields c (length (body ext)))
                      (res_headers (relayed ext (response s))))
                     (''content-length'' \<mapsto> toString (int (length (image_data c)))),
                 headersSent := True,
                 written := written (response s) @ [Body (image_data c)]\<rparr>\<rparr>"
  using assms
  by (subst handleImageProxyRequest.simps)
     (simp add: hipr_ops isolated_meanwhile attempted_def relayed_def compressed_fields_def)

lemma hipr_no_win:
  assumes "isolated w"
    and "fetch w (trace s) (url (locals s)) (filteredRequestHeaders h) = Inr ext"
    and "\<not> headersSent (response s)"
    and "compressor e w (trace s @ [Fetch (url (locals s)) (filteredRequestHeaders h)])
           (body ext) (assign_format t (locals s)) = Inr c"
    and "length (body ext) \<le> image_info_size c"
  shows "handleImageProxyRequest e w h t s =
           (if \<not> t \<and> ENABLE_ALTERNATIVE_FORMAT e = Some ''true''
            then handleImageProxyRequest e w h True (logger ''info'' (attempted e h t ext s))
            else (attempted e h t ext s)
                   \<lparr>response := (relayed ext (response s))
                      \<lparr>headersSent := True,
                       written := written (response s) @ [Redirect (url (locals s))]\<rparr>\<rparr>)"
proof (cases t)
  case True
  with assms show ?thesis
    by (subst handleImageProxyRequest.simps)
       (simp add: hipr_ops isolated_meanwhile attempted_def relayed_def)
next
  case False
  with assms show ?thesis
    by (subst handleImageProxyRequest.simps)
       (simp add: hipr_ops isolated_meanwhile attempted_def relayed_def)
qed

text \<open>The example data, evaluated.\<close>

lemma isolated_steady_world [simp]: "isolated (steady_world f c)"
  by (simp add: isolated_def steady_world_def)

lemma steady_fetch [simp]: "fetch (steady_world f c) t u hs = f"
  by (simp add: steady_world_def)

lemma steady_compressor [simp]: "compressor e (steady_world f c) t b l = c (format l)"
  by (simp add: steady_world_def compressor_def)

lemma steady_meanwhile [simp]: "meanwhile (steady_world f c) t l = l"
  by (simp add: steady_world_def)

lemma tie_world_simps [simp]:
  "isolated tie_world"
  "fetch tie_world t u hs = Inr (upstream 10)"
  "compressor e tie_world t b l = Inr (encoded 10 (format l))"
  by (simp_all add: tie_world_def)

lemma refetch_isolated [simp]: "isolated refetch_world"
  by (simp add: isolated_def refetch_world_def)

lemma first_state_simps [simp]:
  "url (locals first_state) = ''http://example.com/a.png''"
  "format (locals first_state) = ''webp''"
  "response first_state = fresh_response"
  "trace first_state = []"
  by (simp_all add: first_state_def)

lemma fresh_response_simps [simp]:
  "\<not> headersSent fresh_response"
  "written fresh_response = []"
  by (simp_all add: fresh_response_def)

lemma sent_state_simps [simp]:
  "url (locals sent_state) = ''http://example.com/a.png''"
  "headersSent (response sent_state)"
  "written (response sent_state) = [Text ''early'']"
  "trace sent_state = []"
  by (simp_all add: sent_state_def first_state_def)

lemmas evaluate =
  handleImageProxyRequest.simps hipr_ops catch_error_def assign_format_def compressor_def
  best_format_mode_def compressed_fields_def settings_def upstream_def encoded_def
  first_state_def fresh_response_def

text \<open>The parameter extractor and the set-up of the worker.\<close>

lemma filter_entries_other:
  "k \<notin> fst ` set es \<Longrightarrow> fst (fold filter_entry es acc) k = fst acc k"
  by (induction es arbitrary: acc) (auto simp: filter_entry_def split: prod.splits)

text \<open>The route as a whole: what one request can cause.\<close>

lemma get_root_compressions:
  "length (compressions (snd (snd (get_root e pf w now rq wk)))) \<le> 2"
proof (cases "parseRequestParameters pf (req_url rq) fresh_response")
  case (Next l)
  have "length (compressions (trace (handleImageProxyRequest e w (req_headers rq) False
      \<lparr>locals = l, response = fresh_response, trace = []\<rparr>))) \<le> 2"
    using hipr_compressions [of e w "req_headers rq" False
        "\<lparr>locals = l, response = fresh_response, trace = []\<rparr>"]
    by simp
  with Next show ?thesis by (simp add: get_root_def Let_def)
qed (simp_all add: get_root_def)

lemma parse_answered:
  "parseRequestParameters pf u fresh_response = Answered r \<Longrightarrow> length (written r) \<le> 1"
  by (auto simp: parseRequestParameters_def send_def end_response_def fresh_response_def Let_def
      split: prod.splits option.splits if_splits)

lemma get_root_written:
  "(case fst (snd (get_root e pf w now rq wk)) of
      Inl err \<Rightarrow> True
    | Inr r \<Rightarrow> length (written r) \<le> 1)"
proof (cases "parseRequestParameters pf (req_url rq) fresh_response")
  case (Next l)
  have "length (written (response (handleImageProxyRequest e w (req_headers rq) False
      \<lparr>locals = l, response = fresh_response, trace = []\<rparr>))) \<le> 1"
    using hipr_written [of e w "req_headers rq" False
        "\<lparr>locals = l, response = fresh_response, trace = []\<rparr>"]
    by simp
  with Next show ?thesis by (simp add: get_root_def Let_def)
next
  case (Answered r)
  with parse_answered [OF Answered] show ?thesis by (simp add: get_root_def)
next
  case (Threw err)
  then show ?thesis by (simp add: get_root_def)
qed

lemma admission_bypassed:
  "admission parseInt10 v = None \<longleftrightarrow> v = None \<or> v = Some []"
  by (simp add: admission_def queueSize_def split: option.splits)

lemma admission_unbounded:
  "admission parseInt10 v = Some q \<Longrightarrow> queuedLimit q = - 1 \<and> activeLimit q = parseInt10 (the v)"
  by (auto simp: admission_def queueSize_def split: option.splits if_splits)

section \<open>The claims\<close>

text \<open>
  Claim C1, as amended. When the first attempt of a request (handled alone) fetches and
  compresses without error and saves nothing, and \<^verbatim>\<open>ENABLE_ALTERNATIVE_FORMAT\<close> is
  \<^verbatim>\<open>'true'\<close>, the handler calls itself once more with the flag set, from the state the
  first attempt left. That call runs the whole handler again: the target URL is fetched a
  second time (two fetches of it in all), the format in \<^verbatim>\<open>app.locals\<close> ends flipped,
  and the second compression call, made if the second fetch succeeds, is given the bytes
  of the second fetch and the flipped format.
\<close>

theorem fallback_fetches_again:
  assumes "isolated w"
    and "ENABLE_ALTERNATIVE_FORMAT e = Some ''true''"
    and "fetch w (trace s) (url (locals s)) (filteredRequestHeaders h) = Inr ext"
    and "\<not> headersSent (response s)"
    and "compressor e w (trace s @ [Fetch (url (locals s)) (filteredRequestHeaders h)])
           (body ext) (locals s) = Inr c"
    and "length (body ext) \<le> image_info_size c"
  shows "handleImageProxyRequest e w h False s =
           handleImageProxyRequest e w h True (logger ''info'' (attempted e h False ext s))
         \<and> fetches (trace (handleImageProxyRequest e w h False s)) =
             fetches (trace s) @ [url (locals s), url (locals s)]
         \<and> format (locals (handleImageProxyRequest e w h False s)) =
             (if format (locals s) = ''webp'' then ''jpeg'' else ''webp'')
         \<and> compressions (trace (handleImageProxyRequest e w h False s)) =
             compressions (trace s) @ (best_format_mode e, body ext, locals s) #
               (case fetch w (trace (logger ''info'' (attempted e h False ext s))) (url (locals s))
                       (filteredRequestHeaders h) of
                  Inl err \<Rightarrow> []
                | Inr ext' \<Rightarrow> [(best_format_mode e, body ext', assign_format True (locals s))])"
proof -
  let ?s' = "logger ''info'' (attempted e h False ext s)"
  have c: "compressor e w (trace s @ [Fetch (url (locals s)) (filteredRequestHeaders h)])
           (body ext) (assign_format False (locals s)) = Inr c"
    using assms(5) by simp
  have again: "handleImageProxyRequest e w h False s = handleImageProxyRequest e w h True ?s'"
    using hipr_no_win [OF assms(1) assms(3) assms(4) c assms(6)] assms(2) by simp
  have sent: "\<not> headersSent (response ?s')"
    using assms(4) by simp
  have f: "fetches (trace (handleImageProxyRequest e w h True ?s')) =
      fetches (trace s) @ [url (locals s), url (locals s)]"
    by (simp add: alt_fetches)
  have l: "format (locals (handleImageProxyRequest e w h True ?s')) =
      (if format (locals s) = ''webp'' then ''jpeg'' else ''webp'')"
    by (simp add: alt_locals [OF assms(1)] assign_format_def)
  have k: "compressions (trace (handleImageProxyRequest e w h True ?s')) =
      compressions (trace s) @ (best_format_mode e, body ext, locals s) #
        (case fetch w (trace ?s') (url (locals s)) (filteredRequestHeaders h) of
           Inl err \<Rightarrow> []
         | Inr ext' \<Rightarrow> [(best_format_mode e, body ext', assign_format True (locals s))])"
    by (simp add: alt_compressions_exact [OF assms(1) sent] cong: sum.case_cong)
  from again f l k show ?thesis by simp
qed

text \<open>
  An instance of C1 as amended: in \<open>tie_world\<close> with the fallback enabled the URL is fetched
  twice and the format ends as \<^verbatim>\<open>jpeg\<close>.
\<close>

theorem fallback_fetches_again_witness:
  "fetches (trace (handleImageProxyRequest (settings False True) tie_world Map.empty False
      first_state))
     = [''http://example.com/a.png'', ''http://example.com/a.png'']
   \<and> format (locals (handleImageProxyRequest (settings False True) tie_world Map.empty False
      first_state)) = ''jpeg''"
proof -
  have f: "fetch tie_world (trace first_state) (url (locals first_state))
             (filteredRequestHeaders Map.empty) = Inr (upstream 10)"
    by simp
  have c: "compressor (settings False True) tie_world
             (trace first_state @ [Fetch (url (locals first_state)) (filteredRequestHeaders Map.empty)])
             (body (upstream 10)) (locals first_state) = Inr (encoded 10 ''webp'')"
    by simp
  have e: "ENABLE_ALTERNATIVE_FORMAT (settings False True) = Some ''true''"
    by (simp add: settings_def)
  have n: "length (body (upstream 10)) \<le> image_info_size (encoded 10 ''webp'')"
    by (simp add: upstream_def encoded_def)
  have s: "\<not> headersSent (response first_state)"
    by simp
  have i: "isolated tie_world"
    by simp
  note again = fallback_fetches_again [OF i e f s c n]
  have a: "fetches (trace (handleImageProxyRequest (settings False True) tie_world Map.empty
      False first_state)) = [''http://example.com/a.png'', ''http://example.com/a.png'']"
    using again [THEN conjunct2, THEN conjunct1] by simp
  have b: "format (locals (handleImageProxyRequest (settings False True) tie_world Map.empty
      False first_state)) = ''jpeg''"
    using again [THEN conjunct2, THEN conjunct2, THEN conjunct1] by simp
  from a b show ?thesis by simp
qed

text \<open>
  Against C1 as stated: in \<open>refetch_world\<close> the first attempt saves nothing (10 bytes for
  10) with the fallback enabled, and the handler then fetches the URL a second time and
  compresses the 12 bytes of the second fetch, not the 10 bytes fetched first.
\<close>

theorem fallback_second_fetch_counterexample:
  "ENABLE_ALTERNATIVE_FORMAT (settings False True) = Some ''true''
   \<and> fetches (trace (handleImageProxyRequest (settings False True) refetch_world Map.empty False
        first_state))
     = [''http://example.com/a.png'', ''http://example.com/a.png'']
   \<and> compressions (trace (handleImageProxyRequest (settings False True) refetch_world Map.empty
        False first_state))
     = [(False, replicate 10 0,
         \<lparr>url = ''http://example.com/a.png'', format = ''webp'', grayscale = False,
          quality = ()\<rparr>),
        (False, replicate 12 0,
         \<lparr>url = ''http://example.com/a.png'', format = ''jpeg'', grayscale = False,
          quality = ()\<rparr>)]"
  by (simp add: evaluate refetch_world_def)

text \<open>
  Claim C2. Whatever the world does, a request to the route causes at most two
  compression calls; one call of the handler makes at most two compression calls and at
  most two fetches; a call with the flag set (the alternative attempt) makes exactly one
  fetch and at most one compression call, so it never calls the handler again; and when
  that attempt, handled alone, compresses without saving anything, it ends by redirecting
  the client to the URL, after its one compression call.
\<close>

theorem attempts_bounded:
  "length (compressions (snd (snd (get_root e pf w now rq wk)))) \<le> 2
   \<and> length (compressions (trace (handleImageProxyRequest e w h t s)))
     \<le> length (compressions (trace s)) + 2
   \<and> length (fetches (trace (handleImageProxyRequest e w h t s)))
     \<le> length (fetches (trace s)) + 2
   \<and> fetches (trace (handleImageProxyRequest e w h True s)) = fetches (trace s) @ [url (locals s)]
   \<and> length (compressions (trace (handleImageProxyRequest e w h True s)))
     \<le> length (compressions (trace s)) + 1
   \<and> (isolated w
       \<and> fetch w (trace s) (url (locals s)) (filteredRequestHeaders h) = Inr ext
       \<and> \<not> headersSent (response s)
       \<and> compressor e w (trace s @ [Fetch (url (locals s)) (filteredRequestHeaders h)])
           (body ext) (assign_format True (locals s)) = Inr c
       \<and> length (body ext) \<le> image_info_size c
      \<longrightarrow> written (response (handleImageProxyRequest e w h True s)) =
            written (response s) @ [Redirect (url (locals s))]
          \<and> compressions (trace (handleImageProxyRequest e w h True s)) =
            compressions (trace s) @ [(best_format_mode e, body ext, assign_format True (locals s))])"
proof (intro conjI impI)
  show "length (compressions (snd (snd (get_root e pf w now rq wk)))) \<le> 2"
    by (rule get_root_compressions)
  show "length (compressions (trace (handleImageProxyRequest e w h t s)))
     \<le> length (compressions (trace s)) + 2"
    by (rule hipr_compressions)
  show "length (fetches (trace (handleImageProxyRequest e w h t s)))
     \<le> length (fetches (trace s)) + 2"
    by (rule hipr_fetches)
  show "fetches (trace (handleImageProxyRequest e w h True s)) = fetches (trace s) @ [url (locals s)]"
    by (rule alt_fetches)
  show "length (compressions (trace (handleImageProxyRequest e w h True s)))
     \<le> length (compressions (trace s)) + 1"
    using alt_compressions [of e w h s] by simp
next
  assume a: "isolated w
       \<and> fetch w (trace s) (url (locals s)) (filteredRequestHeaders h) = Inr ext
       \<and> \<not> headersSent (response s)
       \<and> compressor e w (trace s @ [Fetch (url (locals s)) (filteredRequestHeaders h)])
           (body ext) (assign_format True (locals s)) = Inr c
       \<and> length (body ext) \<le> image_info_size c"
  then have i: "isolated w"
    and f: "fetch w (trace s) (url (locals s)) (filteredRequestHeaders h) = Inr ext"
    and n: "\<not> headersSent (response s)"
    and c: "compressor e w (trace s @ [Fetch (url (locals s)) (filteredRequestHeaders h)])
           (body ext) (assign_format True (locals s)) = Inr c"
    and l: "length (body ext) \<le> image_info_size c"
    by simp_all
  from hipr_no_win [OF i f n c l]
  show "written (response (handleImageProxyRequest e w h True s)) =
            written (response s) @ [Redirect (url (locals s))]"
    by simp
  from alt_compressions_exact [OF i n, of e h] f
  show "compressions (trace (handleImageProxyRequest e w h True s)) =
            compressions (trace s) @ [(best_format_mode e, body ext, assign_format True (locals s))]"
    by simp
qed

text \<open>
  An instance of C2: the alternative attempt in \<open>tie_world\<close> redirects after one
  compression call, made with the flipped format.
\<close>

theorem attempts_bounded_witness:
  "written (response (handleImageProxyRequest (settings False True) tie_world Map.empty True
      first_state))
     = [Redirect ''http://example.com/a.png'']
   \<and> compressions (trace (handleImageProxyRequest (settings False True) tie_world Map.empty True
      first_state))
     = [(False, replicate 10 0,
         \<lparr>url = ''http://example.com/a.png'', format = ''jpeg'', grayscale = False,
          quality = ()\<rparr>)]"
  using attempts_bounded [where e = "settings False True" and w = tie_world
      and h = Map.empty and s = first_state and ext = "upstream 10" and c = "encoded 10 ''jpeg''"
      and t = True]
  by (simp add: upstream_def encoded_def assign_format_def first_state_def settings_def
      best_format_mode_def)




text \<open>
  Claim C4. For an attempt (handled alone) whose fetch and compression succeed: if the
  compressed size is strictly less than the original size, the compressed bytes are
  written to the client; if not, equal sizes included, they are not: either the handler
  is called again, from a state in which nothing has been written, or the client is
  redirected to the URL.
\<close>

theorem strict_win_boundary:
  assumes "isolated w"
    and "fetch w (trace s) (url (locals s)) (filteredRequestHeaders h) = Inr ext"
    and "\<not> headersSent (response s)"
    and "compressor e w (trace s @ [Fetch (url (locals s)) (filteredRequestHeaders h)])
           (body ext) (assign_format t (locals s)) = Inr c"
  shows "if image_info_size c < length (body ext)
         then written (response (handleImageProxyRequest e w h t s)) =
                written (response s) @ [Body (image_data c)]
         else if \<not> t \<and> ENABLE_ALTERNATIVE_FORMAT e = Some ''true''
         then handleImageProxyRequest e w h t s =
                handleImageProxyRequest e w h True (logger ''info'' (attempted e h t ext s))
              \<and> written (response (logger ''info'' (attempted e h t ext s))) = written (response s)
         else written (response (handleImageProxyRequest e w h t s)) =
                written (response s) @ [Redirect (url (locals s))]"
proof (cases "image_info_size c < length (body ext)")
  case True
  from hipr_win [OF assms True] True show ?thesis by simp
next
  case False
  then have "length (body ext) \<le> image_info_size c" by simp
  note nw = hipr_no_win [OF assms this]
  show ?thesis
  proof (cases "\<not> t \<and> ENABLE_ALTERNATIVE_FORMAT e = Some ''true''")
    case True
    with nw have "handleImageProxyRequest e w h t s =
        handleImageProxyRequest e w h True (logger ''info'' (attempted e h t ext s))"
      by simp
    with True False show ?thesis by auto
  next
    case retry: False
    with nw have "handleImageProxyRequest e w h t s =
        (attempted e h t ext s)
          \<lparr>response := (relayed ext (response s))
             \<lparr>headersSent := True,
              written := written (response s) @ [Redirect (url (locals s))]\<rparr>\<rparr>"
      by simp
    then have "written (response (handleImageProxyRequest e w h t s)) =
        written (response s) @ [Redirect (url (locals s))]"
      by simp
    with retry False show ?thesis by auto
  qed
qed

text \<open>
  Instances of C4: 10 bytes compressed to 10 bytes are not served, the client is
  redirected; 10 bytes compressed to 9 are served.
\<close>

theorem strict_win_boundary_witness:
  "written (response (handleImageProxyRequest (settings False False) tie_world Map.empty False
      first_state))
     = [Redirect ''http://example.com/a.png'']
   \<and> written (response (handleImageProxyRequest (settings False False)
      (steady_world (Inr (upstream 10)) (\<lambda>f. Inr (encoded 9 f))) Map.empty False first_state))
     = [Body (replicate 9 1)]"
proof -
  let ?e = "settings False False"
  have a: "written (response (handleImageProxyRequest ?e tie_world Map.empty False first_state))
     = [Redirect ''http://example.com/a.png'']"
    using strict_win_boundary [where w = tie_world
        and s = first_state and h = Map.empty and ext = "upstream 10" and e = ?e and t = False
        and c = "encoded 10 ''webp''"]
    by (simp add: upstream_def encoded_def settings_def)
  have b: "written (response (handleImageProxyRequest ?e
      (steady_world (Inr (upstream 10)) (\<lambda>f. Inr (encoded 9 f))) Map.empty False first_state))
     = [Body (replicate 9 1)]"
    using strict_win_boundary [where w = "steady_world (Inr (upstream 10)) (\<lambda>f. Inr (encoded 9 f))"
        and s = first_state and h = Map.empty and ext = "upstream 10" and e = ?e and t = False
        and c = "encoded 9 ''webp''"]
    by (simp add: upstream_def encoded_def settings_def)
  from a b show ?thesis by simp
qed

text \<open>
  Claim C5 fails on the code. The request for \<^verbatim>\<open>http://a.example/cat.png\<close> asks for
  \<^verbatim>\<open>jpg=1\<close>, and \<open>parseRequestParameters\<close> builds its context with the format \<^verbatim>\<open>jpeg\<close>;
  handled alone, its image is compressed with that context. But the context is stored in
  \<^verbatim>\<open>request.app.locals\<close>, which belongs to the application and not to the request.
  When a second request is parsed while the handler awaits the fetch, it replaces the
  object: the image of the first request is compressed with the context of the second
  (its URL, the format \<^verbatim>\<open>webp\<close>), the response says \<^verbatim>\<open>image/webp\<close>, and the worker is
  left holding the second request's context.
\<close>

theorem shared_context_overwritten:
  "parseRequestParameters two_queries ''/?url=http://a.example/cat.png&jpg=1'' fresh_response =
     Next \<lparr>url = ''http://a.example/cat.png'', format = ''jpeg'', grayscale = False, quality = ()\<rparr>
   \<and> compressions (snd (snd (get_root (settings False False) two_queries
         (steady_world (Inr (upstream 10)) (\<lambda>f. Inr (encoded 5 f))) 5000
         \<lparr>req_url = ''/?url=http://a.example/cat.png&jpg=1'', req_headers = Map.empty\<rparr>
         idle_worker))) =
       [(False, replicate 10 0,
         \<lparr>url = ''http://a.example/cat.png'', format = ''jpeg'', grayscale = False,
          quality = ()\<rparr>)]
   \<and> (case get_root (settings False False) two_queries overlapping_world 5000
           \<lparr>req_url = ''/?url=http://a.example/cat.png&jpg=1'', req_headers = Map.empty\<rparr>
           idle_worker of
        (wk, r, t) \<Rightarrow>
          fetches t = [''http://a.example/cat.png'']
          \<and> compressions t =
              [(False, replicate 10 0,
                \<lparr>url = ''http://b.example/dog.png'', format = ''webp'', grayscale = False,
                 quality = ()\<rparr>)]
          \<and> (case r of
                Inl err \<Rightarrow> False
              | Inr resp \<Rightarrow> res_headers resp ''content-type'' = Some ''image/webp'')
          \<and> app_locals wk =
              Some \<lparr>url = ''http://b.example/dog.png'', format = ''webp'', grayscale = False,
                    quality = ()\<rparr>)"
  by (simp add: get_root_def parseRequestParameters_def two_queries_def query_slice_def
      filter_entries_def filter_entry_def allowedQueryParameters_def match_bmi_def
      match_digit_def lower_def is_digit_def optional_scheme_def
      handleImageProxyRequest.simps hipr_ops overlapping_world_def upstream_def encoded_def
      settings_def fresh_response_def catch_error_def updateLastRequestTimestamp_def
      idle_worker_def compressor_def best_format_mode_def compressed_fields_def
      toString_def digits.simps digit_def steady_world_def)

text \<open>
  Claim C6. Whatever the world does: when the fetch throws, or the fetch succeeds and the
  compression throws, the handler writes a redirect to the URL if the response head was
  not out and writes nothing if it was, and the last thing it does is log the error. A
  call on a response whose head is already out never writes anything, no call writes
  more than one payload, and the response of a request to the route holds at most one.
\<close>

theorem exception_redirect_guard:
  "(fetch w (trace s) (url (locals s)) (filteredRequestHeaders h) = Inl err \<longrightarrow>
      written (response (handleImageProxyRequest e w h t s)) =
        (if headersSent (response s) then written (response s)
         else written (response s) @ [Redirect (url (locals s))])
      \<and> trace (handleImageProxyRequest e w h t s) =
          trace s @ [Fetch (url (locals s)) (filteredRequestHeaders h), Log ''error''])
   \<and> (fetch w (trace s) (url (locals s)) (filteredRequestHeaders h) = Inr ext
       \<and> set_fields (headers ext) (response s) = Inr r
       \<and> compressor e w (trace s @ [Fetch (url (locals s)) (filteredRequestHeaders h)]) (body ext)
           (meanwhile w (trace s @ [Fetch (url (locals s)) (filteredRequestHeaders h)])
              (assign_format t (locals s))) = Inl err \<longrightarrow>
      written (response (handleImageProxyRequest e w h t s)) =
        (if headersSent (response s) then written (response s)
         else written (response s) @ [Redirect (url (locals s))])
      \<and> trace (handleImageProxyRequest e w h t s) =
          trace s @
            [Fetch (url (locals s)) (filteredRequestHeaders h),
             Compress (best_format_mode e) (body ext)
               (meanwhile w (trace s @ [Fetch (url (locals s)) (filteredRequestHeaders h)])
                  (assign_format t (locals s))),
             Log ''error''])
   \<and> (headersSent (response s) \<longrightarrow>
        written (response (handleImageProxyRequest e w h t s)) = written (response s))
   \<and> length (written (response (handleImageProxyRequest e w h t s)))
        \<le> Suc (length (written (response s)))
   \<and> (case fst (snd (get_root e pf w now rq wk)) of
         Inl x \<Rightarrow> True
       | Inr r' \<Rightarrow> length (written r') \<le> 1)"
proof (intro conjI impI)
  assume "fetch w (trace s) (url (locals s)) (filteredRequestHeaders h) = Inl err"
  from hipr_fetch_failed [OF this]
  show "written (response (handleImageProxyRequest e w h t s)) =
        (if headersSent (response s) then written (response s)
         else written (response s) @ [Redirect (url (locals s))])"
    and "trace (handleImageProxyRequest e w h t s) =
          trace s @ [Fetch (url (locals s)) (filteredRequestHeaders h), Log ''error'']"
    by simp_all
next
  assume a: "fetch w (trace s) (url (locals s)) (filteredRequestHeaders h) = Inr ext
       \<and> set_fields (headers ext) (response s) = Inr r
       \<and> compressor e w (trace s @ [Fetch (url (locals s)) (filteredRequestHeaders h)]) (body ext)
           (meanwhile w (trace s @ [Fetch (url (locals s)) (filteredRequestHeaders h)])
              (assign_format t (locals s))) = Inl err"
  from a have f: "fetch w (trace s) (url (locals s)) (filteredRequestHeaders h) = Inr ext"
    and g: "set_fields (headers ext) (response s) = Inr r"
    and c: "compressor e w (trace s @ [Fetch (url (locals s)) (filteredRequestHeaders h)]) (body ext)
           (meanwhile w (trace s @ [Fetch (url (locals s)) (filteredRequestHeaders h)])
              (assign_format t (locals s))) = Inl err"
    by simp_all
  from hipr_compress_failed [OF f g c]
  show "written (response (handleImageProxyRequest e w h t s)) =
        (if headersSent (response s) then written (response s)
         else written (response s) @ [Redirect (url (locals s))])"
    and "trace (handleImageProxyRequest e w h t s) =
          trace s @
            [Fetch (url (locals s)) (filteredRequestHeaders h),
             Compress (best_format_mode e) (body ext)
               (meanwhile w (trace s @ [Fetch (url (locals s)) (filteredRequestHeaders h)])
                  (assign_format t (locals s))),
             Log ''error'']"
    by simp_all
next
  assume "headersSent (response s)"
  then show "written (response (handleImageProxyRequest e w h t s)) = written (response s)"
    by (rule hipr_sent)
next
  show "length (written (response (handleImageProxyRequest e w h t s)))
        \<le> Suc (length (written (response s)))"
    by (rule hipr_written)
next
  show "case fst (snd (get_root e pf w now rq wk)) of
         Inl x \<Rightarrow> True
       | Inr r' \<Rightarrow> length (written r') \<le> 1"
    by (rule get_root_written)
qed

text \<open>
  Instances of C6: a fetch that times out, on a fresh response and on one already sent,
  and a compression that throws.
\<close>

theorem exception_redirect_guard_witness:
  "written (response (handleImageProxyRequest (settings False False)
      (steady_world (Inl (Thrown ''timeout'')) (\<lambda>f. Inr (encoded 1 f))) Map.empty False first_state))
     = [Redirect ''http://example.com/a.png'']
   \<and> written (response (handleImageProxyRequest (settings False False)
      (steady_world (Inl (Thrown ''timeout'')) (\<lambda>f. Inr (encoded 1 f))) Map.empty False sent_state))
     = [Text ''early'']
   \<and> written (response (handleImageProxyRequest (settings False False)
      (steady_world (Inr (upstream 10)) (\<lambda>f. Inl (Thrown ''unsupported image''))) Map.empty False
      first_state))
     = [Redirect ''http://example.com/a.png'']"
proof -
  let ?e = "settings False False"
  let ?down = "steady_world (Inl (Thrown ''timeout'')) (\<lambda>f. Inr (encoded 1 f))"
  let ?bad = "steady_world (Inr (upstream 10)) (\<lambda>f. Inl (Thrown ''unsupported image''))"
  have a: "written (response (handleImageProxyRequest ?e ?down Map.empty False first_state))
             = [Redirect ''http://example.com/a.png'']"
    using exception_redirect_guard [where w = ?down and s = first_state and h = Map.empty
        and err = "Thrown ''timeout''" and e = ?e and t = False]
    by simp
  have b: "written (response (handleImageProxyRequest ?e ?down Map.empty False sent_state))
             = [Text ''early'']"
    using exception_redirect_guard [where w = ?down and s = sent_state and h = Map.empty
        and err = "Thrown ''timeout''" and e = ?e and t = False]
    by simp
  have c: "written (response (handleImageProxyRequest ?e ?bad Map.empty False first_state))
             = [Redirect ''http://example.com/a.png'']"
    using exception_redirect_guard [where w = ?bad and s = first_state and h = Map.empty
        and err = "Thrown ''unsupported image''" and e = ?e and t = False
        and ext = "upstream 10"
        and r = "fresh_response\<lparr>res_headers :=
                   fold (\<lambda>(k, v) m. m(k \<mapsto> v)) (headers (upstream 10)) (res_headers fresh_response)\<rparr>"]
    by (simp add: set_fields_def upstream_def)
  from a b c show ?thesis by simp
qed

text \<open>
  Claim C7. An attempt whose compressed image is smaller than the original (handled
  alone, both awaits succeeding, the response head not yet out) ends with a response
  without \<^verbatim>\<open>transfer-encoding\<close> that carries \<^verbatim>\<open>content-encoding: identity\<close>,
  \<^verbatim>\<open>content-type: image/\<close> and the format of the compression result,
  \<^verbatim>\<open>x-original-size\<close> the original size and \<^verbatim>\<open>x-bytes-saved\<close> the original size less
  the compressed size, each in decimal, and whose payload is the compressed bytes.
  \<^verbatim>\<open>content-length\<close> is the number of bytes sent: the handler sets it to the size the
  compression reports, and \<^verbatim>\<open>send\<close> sets it to the length of the data. Where the size
  reported is the length of the data, as it is for the codec's results, that is the
  compressed size.
\<close>

theorem win_response:
  assumes "isolated w"
    and "fetch w (trace s) (url (locals s)) (filteredRequestHeaders h) = Inr ext"
    and "\<not> headersSent (response s)"
    and "compressor e w (trace s @ [Fetch (url (locals s)) (filteredRequestHeaders h)])
           (body ext) (assign_format t (locals s)) = Inr c"
    and "image_info_size c < length (body ext)"
  shows "res_headers (response (handleImageProxyRequest e w h t s)) ''transfer-encoding'' = None
         \<and> res_headers (response (handleImageProxyRequest e w h t s)) ''content-encoding'' =
             Some ''identity''
         \<and> res_headers (response (handleImageProxyRequest e w h t s)) ''content-type'' =
             Some (''image/'' @ result_format c)
         \<and> res_headers (response (handleImageProxyRequest e w h t s)) ''content-length'' =
             Some (toString (int (length (image_data c))))
         \<and> (image_info_size c = length (image_data c) \<longrightarrow>
              res_headers (response (handleImageProxyRequest e w h t s)) ''content-length'' =
                Some (toString (int (image_info_size c))))
         \<and> res_headers (response (handleImageProxyRequest e w h t s)) ''x-original-size'' =
             Some (toString (int (length (body ext))))
         \<and> res_headers (response (handleImageProxyRequest e w h t s)) ''x-bytes-saved'' =
             Some (toString (int (length (body ext)) - int (image_info_size c)))
         \<and> written (response (handleImageProxyRequest e w h t s)) =
             written (response s) @ [Body (image_data c)]"
  by (simp add: hipr_win [OF assms] compressed_fields_def relayed_def Let_def)

text \<open>
  The instance the specification gives for C7: 1000 bytes compressed to 600.
\<close>

theorem win_response_witness:
  "res_headers (response (handleImageProxyRequest (settings False False)
       (steady_world (Inr (upstream 1000)) (\<lambda>f. Inr (encoded 600 f))) Map.empty False first_state))
     ''x-bytes-saved'' = Some ''400''
   \<and> res_headers (response (handleImageProxyRequest (settings False False)
       (steady_world (Inr (upstream 1000)) (\<lambda>f. Inr (encoded 600 f))) Map.empty False first_state))
     ''content-length'' = Some ''600''
   \<and> res_headers (response (handleImageProxyRequest (settings False False)
       (steady_world (Inr (upstream 1000)) (\<lambda>f. Inr (encoded 600 f))) Map.empty False first_state))
     ''transfer-encoding'' = None
   \<and> written (response (handleImageProxyRequest (settings False False)
       (steady_world (Inr (upstream 1000)) (\<lambda>f. Inr (encoded 600 f))) Map.empty False first_state))
     = [Body (replicate 600 1)]"
proof -
  let ?w = "steady_world (Inr (upstream 1000)) (\<lambda>f. Inr (encoded 600 f))"
  let ?e = "settings False False"
  have f: "fetch ?w (trace first_state) (url (locals first_state)) (filteredRequestHeaders Map.empty)
             = Inr (upstream 1000)"
    by (simp add: steady_world_def)
  have n: "\<not> headersSent (response first_state)"
    by (simp add: first_state_def fresh_response_def)
  have c: "compressor ?e ?w
             (trace first_state @ [Fetch (url (locals first_state)) (filteredRequestHeaders Map.empty)])
             (body (upstream 1000)) (assign_format False (locals first_state))
           = Inr (encoded 600 ''webp'')"
    by (simp add: compressor_def steady_world_def first_state_def)
  have l: "image_info_size (encoded 600 ''webp'') < length (body (upstream 1000))"
    by (simp add: encoded_def upstream_def)
  from win_response [OF isolated_steady_world f n c l] show ?thesis
    by (simp add: encoded_def upstream_def first_state_def fresh_response_def toString_def
        digits.simps digit_def relayed_def)
qed

text \<open>
  Claim C8, as amended. The timer callback calls the collector exactly when the runtime
  exposes it and the time since the last request is at least 10 000 ms and at most
  60 000 ms: both bounds are included.
\<close>

theorem idle_window_inclusive:
  "interval_callback gc_exposed now wk \<longleftrightarrow>
     gc_exposed \<and> 10000 \<le> now - lastRequestTimestamp wk \<and> now - lastRequestTimestamp wk \<le> 60000"
  by (auto simp: interval_callback_def Let_def)

text \<open>Instances of C8 as amended, inside and outside the window.\<close>

theorem idle_window_inclusive_witness:
  "interval_callback True 30000 idle_worker \<and> \<not> interval_callback True 9999 idle_worker
   \<and> \<not> interval_callback True 60001 idle_worker \<and> \<not> interval_callback False 30000 idle_worker"
  using idle_window_inclusive [of True 30000 idle_worker]
    idle_window_inclusive [of True 9999 idle_worker]
    idle_window_inclusive [of True 60001 idle_worker]
    idle_window_inclusive [of False 30000 idle_worker]
  by (simp add: idle_worker_def)

text \<open>
  Against C8 as stated: at exactly 10 000 ms and at exactly 60 000 ms since the last
  request the callback does call the collector.
\<close>

theorem idle_window_boundary_counterexample:
  "interval_callback True 10000 idle_worker \<and> interval_callback True 60000 idle_worker
   \<and> (10000::int) - lastRequestTimestamp idle_worker = 10 * 1000
   \<and> (60000::int) - lastRequestTimestamp idle_worker = 60 * 1000"
  by (simp add: interval_callback_def idle_worker_def)

text \<open>
  Claim C10. When the entries of the query hold no \<^verbatim>\<open>url\<close> parameter, the parameter
  extractor answers with the text \<^verbatim>\<open>bandwidth-hero-proxy\<close> (20 bytes) and does not call
  \<^verbatim>\<open>next()\<close>: the route leaves the worker as it was (the timestamp is not updated) and
  the handler does not run, so there is no fetch and no compression.
\<close>

theorem missing_url_identifies:
  assumes "''url'' \<notin> fst ` set (URLSearchParams pf (query_slice (req_url rq)))"
  shows "parseRequestParameters pf (req_url rq) fresh_response =
           Answered (fresh_response\<lparr>res_headers := [''content-length'' \<mapsto> ''20''], headersSent := True,
               written := [Text ''bandwidth-hero-proxy'']\<rparr>)
         \<and> get_root e pf w now rq wk =
           (wk, Inr (fresh_response\<lparr>res_headers := [''content-length'' \<mapsto> ''20''], headersSent := True,
               written := [Text ''bandwidth-hero-proxy'']\<rparr>),
            [])"
proof -
  obtain filteredQueryParams extraQueryParams
    where fe: "filter_entries (URLSearchParams pf (query_slice (req_url rq))) =
      (filteredQueryParams, extraQueryParams)"
    by (cases "filter_entries (URLSearchParams pf (query_slice (req_url rq)))")
  have "fst (filter_entries (URLSearchParams pf (query_slice (req_url rq)))) ''url'' = None"
    using filter_entries_other [OF assms, of "(Map.empty, [])"]
    by (simp add: filter_entries_def)
  with fe have "filteredQueryParams ''url'' = None"
    by simp
  with fe have p: "parseRequestParameters pf (req_url rq) fresh_response =
      Answered (fresh_response\<lparr>res_headers := [''content-length'' \<mapsto> ''20''], headersSent := True,
               written := [Text ''bandwidth-hero-proxy'']\<rparr>)"
    by (simp add: parseRequestParameters_def send_def end_response_def fresh_response_def
        toString_def digits.simps digit_def)
  then show ?thesis
    by (simp add: get_root_def)
qed

text \<open>An instance of C10: the request \<^verbatim>\<open>/?jpg=1\<close>.\<close>

theorem missing_url_identifies_witness:
  "get_root (settings False True) two_queries overlapping_world 5000
      \<lparr>req_url = ''/?jpg=1'', req_headers = Map.empty\<rparr> idle_worker =
     (idle_worker,
      Inr \<lparr>res_headers = [''content-length'' \<mapsto> ''20''], headersSent = True,
          written = [Text ''bandwidth-hero-proxy'']\<rparr>,
      [])"
  using missing_url_identifies [where pf = two_queries
      and rq = "\<lparr>req_url = ''/?jpg=1'', req_headers = Map.empty\<rparr>"
      and e = "settings False True" and w = overlapping_world and now = 5000 and wk = idle_worker]
  by (simp add: two_queries_def query_slice_def fresh_response_def)

end
